theory Spec2Isabelle
  imports Complex_Main
begin

section \<open>Numbers and vectors\<close>

text \<open>
  The program is a TypeScript scene (React, three.js).  A JavaScript \<open>number\<close> is
  modelled as a \<^typ>\<open>real\<close>: rounding, \<open>NaN\<close> and the infinities are outside the model, so
  an equation proved here is the exact version of what the program computes up to
  floating-point rounding.  \<open>Math.floor\<close> is \<^term>\<open>floor\<close>, with an \<^typ>\<open>int\<close> result.

  \<open>THREE.Vector3\<close> and \<open>THREE.Euler\<close> are records of three numbers.
\<close>

record Vector3 =
  vx :: real
  vy :: real
  vz :: real

record Euler =
  rot_x :: real
  rot_y :: real
  rot_z :: real

definition vec3 :: "real \<Rightarrow> real \<Rightarrow> real \<Rightarrow> Vector3" where
  "vec3 a b c = \<lparr>vx = a, vy = b, vz = c\<rparr>"

definition setScalar :: "real \<Rightarrow> Vector3" where
  "setScalar s = vec3 s s s"

definition lerpVectors :: "Vector3 \<Rightarrow> Vector3 \<Rightarrow> real \<Rightarrow> Vector3" where
  \<comment> \<open>\<open>Vector3.lerpVectors(v1, v2, alpha)\<close>\<close>
  "lerpVectors v1 v2 alpha =
     vec3 (vx v1 + (vx v2 - vx v1) * alpha)
          (vy v1 + (vy v2 - vy v1) * alpha)
          (vz v1 + (vz v2 - vz v1) * alpha)"

definition vlength :: "Vector3 \<Rightarrow> real" where
  "vlength v = sqrt (vx v * vx v + vy v * vy v + vz v * vz v)"

definition normalize :: "Vector3 \<Rightarrow> Vector3" where
  \<comment> \<open>\<open>Vector3.normalize()\<close> is \<open>divideScalar(length() || 1)\<close>\<close>
  "normalize v =
     (let l = (if vlength v = 0 then 1 else vlength v)
      in vec3 (vx v / l) (vy v / l) (vz v / l))"

definition distanceTo :: "Vector3 \<Rightarrow> Vector3 \<Rightarrow> real" where
  "distanceTo a b = vlength (vec3 (vx a - vx b) (vy a - vy b) (vz a - vz b))"

definition slice0 :: "'a list \<Rightarrow> int \<Rightarrow> 'a list" where
  \<comment> \<open>\<open>Array.prototype.slice(0, end)\<close>: a negative \<open>end\<close> counts from the end of the array\<close>
  "slice0 xs e =
     (if e < 0 then take (nat (int (length xs) + e)) xs else take (nat e) xs)"

section \<open>The body registry\<close>

text \<open>
  \<open>PlanetInfo\<close> and \<open>SatelliteData\<close>, with the fields the frame callbacks and the camera
  controller read (the display name, colour and descriptive texts are left out).
\<close>

record PlanetInfo =
  p_id :: string
  p_size :: real
  p_distance :: real
  p_speed :: real
  p_realDistance :: real

definition mkPlanet :: "string \<Rightarrow> real \<Rightarrow> real \<Rightarrow> real \<Rightarrow> real \<Rightarrow> PlanetInfo" where
  "mkPlanet i sz d sp rd =
     \<lparr>p_id = i, p_size = sz, p_distance = d, p_speed = sp, p_realDistance = rd\<rparr>"

definition planetData :: "PlanetInfo list" where
  "planetData =
     [mkPlanet ''mercury'' 0.4 8 4.15 12,
      mkPlanet ''venus'' 0.9 12 1.62 18,
      mkPlanet ''earth'' 1 16 1 25,
      mkPlanet ''mars'' 0.5 22 0.53 32,
      mkPlanet ''jupiter'' 2.5 35 0.084 60,
      mkPlanet ''saturn'' 2.1 45 0.034 80,
      mkPlanet ''uranus'' 1.6 55 0.012 100,
      mkPlanet ''neptune'' 1.5 65 0.006 120]"

record SatelliteData =
  s_id :: string
  s_size :: real
  s_distance :: real
  s_speed :: real

definition mkSatellite :: "string \<Rightarrow> real \<Rightarrow> real \<Rightarrow> real \<Rightarrow> SatelliteData" where
  "mkSatellite i sz d sp = \<lparr>s_id = i, s_size = sz, s_distance = d, s_speed = sp\<rparr>"

definition satelliteDatabase :: "SatelliteData list" where
  "satelliteDatabase =
     [mkSatellite ''moon'' 0.3 2 2,
      mkSatellite ''phobos'' 0.08 0.8 8,
      mkSatellite ''deimos'' 0.05 1.2 4,
      mkSatellite ''io'' 0.25 3.5 3,
      mkSatellite ''europa'' 0.22 4.2 2.5,
      mkSatellite ''ganymede'' 0.3 5 2,
      mkSatellite ''callisto'' 0.28 6.5 1.5,
      mkSatellite ''titan'' 0.32 4.5 1.8,
      mkSatellite ''enceladus'' 0.12 3 3.5,
      mkSatellite ''miranda'' 0.08 2.5 4,
      mkSatellite ''triton'' 0.18 3.5 (- 2)]"

text \<open>
  The properties of the scene that the modelled callbacks read (\<open>SolarSystemProps\<close>).
\<close>

record SolarSystemProps =
  timeSpeed :: real
  realScale :: bool
  trailType :: string
  trailLength :: real
  isPlaying :: bool
  realisticRendering :: bool

section \<open>Kinematics: the frame callbacks of \<open>Planet\<close> and \<open>Satellite\<close>\<close>

text \<open>
  The state of one \<open>Planet\<close> component: its two React states (\<open>angle\<close>,
  \<open>trailPositions\<close>) and the two objects behind its refs, \<open>None\<close> while the ref is not
  attached: the position of the orbit group and the rotation of the planet mesh.
\<close>

record PlanetState =
  angle :: real
  trailPositions :: "Vector3 list"
  orbitRef :: "Vector3 option"
  meshRef :: "Euler option"

type_synonym positions = "string \<rightharpoonup> Vector3"

definition handlePlanetPositionUpdate :: "string \<Rightarrow> Vector3 \<Rightarrow> positions \<Rightarrow> positions" where
  \<comment> \<open>the \<open>onPositionUpdate\<close> callback that \<open>Scene\<close> gives every planet\<close>
  "handlePlanetPositionUpdate planetId position prev = prev(planetId \<mapsto> position)"

definition rotationSpeed :: "string \<Rightarrow> real" where
  \<comment> \<open>the table of self-rotation speeds, \<open>|| 0.1\<close> for an id that is not in it\<close>
  "rotationSpeed i =
     (if i = ''mercury'' then 0.1
      else if i = ''venus'' then - 0.05
      else if i = ''earth'' then 0.2
      else if i = ''mars'' then 0.18
      else if i = ''jupiter'' then 0.4
      else if i = ''saturn'' then 0.35
      else if i = ''uranus'' then 0.15
      else if i = ''neptune'' then 0.16
      else 0.1)"

definition PlanetFrame ::
  "SolarSystemProps \<Rightarrow> PlanetInfo \<Rightarrow> real \<Rightarrow> PlanetState \<times> positions \<Rightarrow> PlanetState \<times> positions" where
  \<comment> \<open>the \<open>useFrame\<close> callback of \<open>Planet\<close>; \<open>delta\<close> is the time since the last frame\<close>
  "PlanetFrame props planet delta sp =
     (if \<not> isPlaying props then sp
      else
        let st = fst sp;
            newAngle = angle st + delta * p_speed planet * timeSpeed props * 0.1;
            distance = (if realScale props then p_realDistance planet else p_distance planet);
            newX = cos newAngle * distance;
            newZ = sin newAngle * distance;
            st1 = st\<lparr>angle := newAngle\<rparr>;
            sp2 = (case orbitRef st1 of
                     None \<Rightarrow> (st1, snd sp)
                   | Some pos \<Rightarrow>
                       (st1\<lparr>orbitRef := Some (pos\<lparr>vx := newX, vz := newZ\<rparr>),
                            trailPositions :=
                              (if trailType props \<noteq> ''none''
                               then slice0 (vec3 newX 0 newZ # trailPositions st1)
                                      \<lfloor>trailLength props\<rfloor>
                               else trailPositions st1)\<rparr>,
                        handlePlanetPositionUpdate (p_id planet) (vec3 newX 0 newZ) (snd sp)));
            st2 = fst sp2
        in (case meshRef st2 of
              None \<Rightarrow> sp2
            | Some r \<Rightarrow>
                (st2\<lparr>meshRef :=
                       Some (r\<lparr>rot_y := rot_y r + delta * rotationSpeed (p_id planet) * timeSpeed props,
                               rot_z := (if p_id planet = ''uranus'' then pi / 2 else rot_z r)\<rparr>)\<rparr>,
                 snd sp2)))"

text \<open>
  The state of one \<open>Satellite\<close> component: its \<open>angle\<close> and the position of its group.
  The position of the parent planet is the property \<open>planetPosition\<close>.
\<close>

record SatelliteState =
  sat_angle :: real
  sat_orbitRef :: "Vector3 option"

definition SatelliteFrame ::
  "SolarSystemProps \<Rightarrow> SatelliteData \<Rightarrow> Vector3 \<Rightarrow> real \<Rightarrow> SatelliteState \<Rightarrow> SatelliteState" where
  \<comment> \<open>the \<open>useFrame\<close> callback of \<open>Satellite\<close>\<close>
  "SatelliteFrame props satellite planetPosition delta st =
     (if \<not> isPlaying props then st
      else
        let newAngle = sat_angle st + delta * s_speed satellite * timeSpeed props * 0.1;
            satelliteDistance =
              (if realScale props then s_distance satellite * 0.3 else s_distance satellite);
            newX = vx planetPosition + cos newAngle * satelliteDistance;
            newZ = vz planetPosition + sin newAngle * satelliteDistance
        in st\<lparr>sat_angle := newAngle,
              sat_orbitRef :=
                (case sat_orbitRef st of
                   None \<Rightarrow> None
                 | Some pos \<Rightarrow> Some (pos\<lparr>vx := newX, vz := newZ\<rparr>))\<rparr>)"

text \<open>
  A frame callback is the closure of the last committed render.  It reads \<open>angle\<close> as
  that render saw it and writes the state with \<open>setAngle(newAngle)\<close>, a value and not an
  update function; the trail is written with the update function
  \<open>setTrailPositions(prev => ...)\<close>, and the objects behind the refs are live.  So a
  component is the angle of its last render together with its state, and a schedule is a
  list of events: a frame, with the properties of the last render and its delta, or a
  render, which commits the state.  While playback is off the callback returns at once.
\<close>

datatype 'f event = Frame 'f | Render

definition PlanetEvent ::
  "PlanetInfo \<Rightarrow> (SolarSystemProps \<times> real) event \<Rightarrow> real \<times> PlanetState \<times> positions
     \<Rightarrow> real \<times> PlanetState \<times> positions" where
  "PlanetEvent planet e c =
     (case e of
        Render \<Rightarrow> (angle (fst (snd c)), snd c)
      | Frame f \<Rightarrow>
          (fst c,
           if isPlaying (fst f)
           then PlanetFrame (fst f) planet (snd f) ((fst (snd c))\<lparr>angle := fst c\<rparr>, snd (snd c))
           else snd c))"

definition PlanetFrames ::
  "PlanetInfo \<Rightarrow> (SolarSystemProps \<times> real) event list \<Rightarrow> real \<times> PlanetState \<times> positions
     \<Rightarrow> real \<times> PlanetState \<times> positions" where
  "PlanetFrames planet events c = foldl (\<lambda>c' e. PlanetEvent planet e c') c events"

definition SatelliteEvent ::
  "SatelliteData \<Rightarrow> (SolarSystemProps \<times> Vector3 \<times> real) event \<Rightarrow> real \<times> SatelliteState
     \<Rightarrow> real \<times> SatelliteState" where
  \<comment> \<open>a frame comes with its properties, its \<open>planetPosition\<close> and its \<open>delta\<close>\<close>
  "SatelliteEvent satellite e c =
     (case e of
        Render \<Rightarrow> (sat_angle (snd c), snd c)
      | Frame f \<Rightarrow>
          (fst c,
           if isPlaying (fst f)
           then SatelliteFrame (fst f) satellite (fst (snd f)) (snd (snd f))
                  ((snd c)\<lparr>sat_angle := fst c\<rparr>)
           else snd c))"

definition SatelliteFrames ::
  "SatelliteData \<Rightarrow> (SolarSystemProps \<times> Vector3 \<times> real) event list \<Rightarrow> real \<times> SatelliteState
     \<Rightarrow> real \<times> SatelliteState" where
  "SatelliteFrames satellite events c = foldl (\<lambda>c' e. SatelliteEvent satellite e c') c events"

definition withRenders :: "'f list \<Rightarrow> 'f event list" where
  \<comment> \<open>the schedule on which a render is committed after every frame\<close>
  "withRenders fs = concat (map (\<lambda>f. [Frame f, Render]) fs)"

section \<open>Frame callbacks that do not read the playback flag\<close>

text \<open>
  Under realistic rendering \<open>Planet\<close> draws the planet with the component
  \<open>RealisticPlanet\<close>, which spins the planet mesh in a frame callback of its own.  It
  receives \<open>timeSpeed\<close> but not \<open>isPlaying\<close>.  \<open>cloudsSpeed\<close> is \<open>config.clouds.speed\<close> of
  the material configuration (\<open>None\<close> without a cloud layer), \<open>time\<close> the elapsed clock
  time, and \<open>rp_emissiveIntensity\<close> the emissive intensity of the loaded planet material.
\<close>

record RealisticPlanetState =
  rp_groupRef :: bool
  rp_planetRef :: "Euler option"
  rp_cloudsRef :: "Euler option"
  rp_atmosphereRef :: "Euler option"
  rp_emissiveIntensity :: "real option"

definition getRotationSpeed :: "string \<Rightarrow> real" where
  "getRotationSpeed planetId =
     (if planetId = ''mercury'' then 0.1
      else if planetId = ''venus'' then - 0.05
      else if planetId = ''earth'' then 0.2
      else if planetId = ''mars'' then 0.18
      else if planetId = ''jupiter'' then 0.4
      else if planetId = ''saturn'' then 0.35
      else if planetId = ''uranus'' then 0.15
      else if planetId = ''neptune'' then 0.16
      else 0.1)"

definition RealisticPlanetFrame ::
  "SolarSystemProps \<Rightarrow> string \<Rightarrow> real option \<Rightarrow> real \<Rightarrow> real \<Rightarrow> RealisticPlanetState
     \<Rightarrow> RealisticPlanetState" where
  "RealisticPlanetFrame props planetId cloudsSpeed time delta st =
     (if \<not> rp_groupRef st then st
      else
        let st1 = (case rp_planetRef st of
                     None \<Rightarrow> st
                   | Some r \<Rightarrow>
                       st\<lparr>rp_planetRef :=
                            Some (r\<lparr>rot_y := rot_y r + delta * getRotationSpeed planetId * timeSpeed props,
                                    rot_z := (if planetId = ''uranus'' then pi / 2 else rot_z r)\<rparr>)\<rparr>);
            st2 = (case rp_cloudsRef st1 of
                     None \<Rightarrow> st1
                   | Some r \<Rightarrow>
                       (case cloudsSpeed of
                          None \<Rightarrow> st1
                        | Some speed \<Rightarrow>
                            st1\<lparr>rp_cloudsRef :=
                                  Some (r\<lparr>rot_y := rot_y r + delta * speed * timeSpeed props\<rparr>)\<rparr>));
            st3 = (case rp_atmosphereRef st2 of
                     None \<Rightarrow> st2
                   | Some r \<Rightarrow>
                       st2\<lparr>rp_atmosphereRef :=
                             Some (r\<lparr>rot_y := rot_y r + delta * 0.0005 * timeSpeed props\<rparr>)\<rparr>)
        in if planetId = ''earth''
           then (case rp_emissiveIntensity st3 of
                   None \<Rightarrow> st3
                 | Some e \<Rightarrow>
                     st3\<lparr>rp_emissiveIntensity := Some (0.1 + (sin (time * 0.1) * 0.5 + 0.5) * 0.3)\<rparr>)
           else st3)"

text \<open>
  The frame callback of \<open>Sun\<close>: the scale of the glow, the scale and rotation of the
  corona, and the rotation of the sun's mesh, each kept \<open>None\<close> while its ref is not attached.
\<close>

record SunState =
  sun_meshRef :: "Euler option"
  sun_glowRef :: "Vector3 option"
  sun_coronaRef :: "(Vector3 \<times> Euler) option"

definition SunFrame :: "real \<Rightarrow> SunState \<Rightarrow> SunState" where
  "SunFrame time st =
     st\<lparr>sun_glowRef :=
          (case sun_glowRef st of
             None \<Rightarrow> None
           | Some sc \<Rightarrow> Some (setScalar (1 + sin (time * 1.2) * 0.08 + sin (time * 2.3) * 0.04))),
        sun_coronaRef :=
          (case sun_coronaRef st of
             None \<Rightarrow> None
           | Some c \<Rightarrow>
               Some (setScalar (1 + sin (time * 0.8) * 0.1 + cos (time * 1.8) * 0.05),
                     (snd c)\<lparr>rot_z := rot_z (snd c) + 0.002\<rparr>)),
        sun_meshRef :=
          (case sun_meshRef st of
             None \<Rightarrow> None
           | Some r \<Rightarrow> Some (r\<lparr>rot_y := rot_y r + 0.01\<rparr>))\<rparr>"

section \<open>A planet with its satellites: frames and renders\<close>

text \<open>
  \<open>Planet\<close> renders its satellites with the property \<open>planetPosition = currentPosition\<close>,
  a fresh vector into which the render copies the position of the orbit group (the zero
  vector while the ref is not attached).  A frame runs the frame callbacks of the mounted
  components, each with the properties of the last render; the state they set makes React
  render again after the frame, and that render takes the next copy.
\<close>

record PlanetSystem =
  sys_planet :: PlanetState
  sys_realistic :: RealisticPlanetState
  sys_planetPosition :: Vector3
  sys_satellites :: "(SatelliteData \<times> SatelliteState) list"

definition currentPosition :: "PlanetState \<Rightarrow> Vector3" where
  "currentPosition st = (case orbitRef st of None \<Rightarrow> vec3 0 0 0 | Some pos \<Rightarrow> pos)"

definition PlanetSystemFrame ::
  "SolarSystemProps \<Rightarrow> PlanetInfo \<Rightarrow> real option \<Rightarrow> real \<Rightarrow> real \<Rightarrow> PlanetSystem \<times> positions
     \<Rightarrow> PlanetSystem \<times> positions" where
  "PlanetSystemFrame props planet cloudsSpeed time delta sp =
     (let sys = fst sp;
          satellites =
            map (\<lambda>s. (fst s, SatelliteFrame props (fst s) (sys_planetPosition sys) delta (snd s)))
              (sys_satellites sys);
          realistic =
            (if realisticRendering props
             then RealisticPlanetFrame props (p_id planet) cloudsSpeed time delta (sys_realistic sys)
             else sys_realistic sys);
          pl = PlanetFrame props planet delta (sys_planet sys, snd sp)
      in (sys\<lparr>sys_planet := fst pl, sys_realistic := realistic, sys_satellites := satellites\<rparr>,
          snd pl))"

definition PlanetSystemRender :: "PlanetSystem \<Rightarrow> PlanetSystem" where
  "PlanetSystemRender sys = sys\<lparr>sys_planetPosition := currentPosition (sys_planet sys)\<rparr>"

definition PlanetSystemTick ::
  "SolarSystemProps \<Rightarrow> PlanetInfo \<Rightarrow> real option \<Rightarrow> real \<Rightarrow> real \<Rightarrow> PlanetSystem \<times> positions
     \<Rightarrow> PlanetSystem \<times> positions" where
  "PlanetSystemTick props planet cloudsSpeed time delta sp =
     (let r = PlanetSystemFrame props planet cloudsSpeed time delta sp
      in (PlanetSystemRender (fst r), snd r))"

section \<open>The camera focus controller\<close>

text \<open>
  \<open>CameraZoomController\<close> is one effect.  It reads the selected id \<open>targetPlanet\<close>, the
  table \<open>planetData\<close>, the map \<open>planetPositions\<close> of the positions the planets reported, the
  camera and the orbit controls, and it starts the closure \<open>animateZoom\<close>, which runs once
  at once and then once per animation frame until its progress reaches 1.

  The closure is the record of the values it captured.  The scene is the position of the
  camera, the target of the orbit controls (\<open>None\<close> while \<open>orbitControlsRef.current\<close> is
  null), the state \<open>isZooming\<close>, the closures waiting for the next animation frame, the
  console, and the exceptions no one caught.  \<open>OrbitControls.update()\<close> is taken to leave
  the camera position and the target as they are (no pointer input is pending and the
  camera is within the distance limits).  The clock \<open>Date.now()\<close> is a parameter, in
  milliseconds.
\<close>

datatype js_error = TypeError | RangeError

record ZoomAnimation =
  startPosition :: Vector3
  startTarget :: Vector3
  targetCameraPosition :: Vector3
  planetPosition :: Vector3
  startTime :: int

record CameraScene =
  camera_position :: Vector3
  controls_target :: "Vector3 option"
  isZooming :: bool
  animationFrames :: "ZoomAnimation list"
  console :: "string list"
  uncaught :: "js_error list"

definition duration :: real where
  "duration = 2000"

definition linearProgress :: "ZoomAnimation \<Rightarrow> int \<Rightarrow> real" where
  \<comment> \<open>\<open>Math.min(elapsed / duration, 1)\<close> with \<open>elapsed = Date.now() - startTime\<close>\<close>
  "linearProgress a now = min (real_of_int (now - startTime a) / duration) 1"

definition easeOut :: "real \<Rightarrow> real" where
  \<comment> \<open>\<open>1 - Math.pow(1 - progress, 3)\<close>\<close>
  "easeOut progress = 1 - (1 - progress) ^ 3"

definition animateZoom :: "ZoomAnimation \<Rightarrow> int \<Rightarrow> CameraScene \<Rightarrow> CameraScene" where
  "animateZoom a now s =
     (let progress = linearProgress a now;
          easeProgress = easeOut progress;
          s1 = s\<lparr>camera_position :=
                   lerpVectors (startPosition a) (targetCameraPosition a) easeProgress\<rparr>
      in case controls_target s1 of
           None \<Rightarrow> s1\<lparr>uncaught := uncaught s1 @ [TypeError]\<rparr>
         | Some t \<Rightarrow>
             let s2 = s1\<lparr>controls_target :=
                          Some (lerpVectors (startTarget a) (planetPosition a) easeProgress)\<rparr>
             in if progress < 1
                then s2\<lparr>animationFrames := animationFrames s2 @ [a]\<rparr>
                else s2\<lparr>isZooming := False, controls_target := Some (planetPosition a)\<rparr>)"

definition runAnimationFrames :: "int \<Rightarrow> CameraScene \<Rightarrow> CameraScene" where
  \<comment> \<open>one animation frame: the waiting callbacks run in the order of their requests\<close>
  "runAnimationFrames now s =
     foldl (\<lambda>s' a. animateZoom a now s') (s\<lparr>animationFrames := []\<rparr>) (animationFrames s)"

definition zoomParams :: "string \<Rightarrow> (real \<times> real) option" where
  \<comment> \<open>the table \<open>zoomParams\<close>: viewing distance and height by id\<close>
  "zoomParams i =
     (if i = ''mercury'' then Some (2.5, 0.5)
      else if i = ''venus'' then Some (3.5, 0.8)
      else if i = ''earth'' then Some (4.5, 1.2)
      else if i = ''mars'' then Some (3.5, 0.8)
      else if i = ''jupiter'' then Some (10, 2)
      else if i = ''saturn'' then Some (12, 2.5)
      else if i = ''uranus'' then Some (7, 1.5)
      else if i = ''neptune'' then Some (7, 1.5)
      else if i = ''sun'' then Some (18, 3)
      else None)"

definition viewDirection :: "string \<Rightarrow> Vector3" where
  \<comment> \<open>the \<open>switch (planet.id)\<close> that chooses \<open>direction\<close>\<close>
  "viewDirection i =
     (if i = ''saturn'' then normalize (vec3 0.8 0.6 0.8)
      else if i = ''earth'' then normalize (vec3 1 0.4 0.8)
      else if i = ''jupiter'' then normalize (vec3 1 0.2 0.6)
      else normalize (vec3 1 0.3 0.8))"

definition captureZoom ::
  "SolarSystemProps \<Rightarrow> PlanetInfo \<Rightarrow> Vector3 \<Rightarrow> Vector3 \<Rightarrow> Vector3 \<Rightarrow> int \<Rightarrow> ZoomAnimation" where
  \<comment> \<open>what the effect computes and \<open>animateZoom\<close> captures, for the planet found in the
      table, its position \<open>pos\<close> in the map, the camera position and the controls' target\<close>
  "captureZoom props planet pos cam target now =
     (let planetX = vx pos;
          planetZ = vz pos;
          planetSize = (if realScale props then p_size planet * 0.5 else p_size planet);
          params =
            (case zoomParams (p_id planet) of
               Some q \<Rightarrow> q
             | None \<Rightarrow> (max (planetSize * 4) 3, max (planetSize * 2) 1.5));
          direction = viewDirection (p_id planet)
      in \<lparr>startPosition = cam,
          startTarget = target,
          targetCameraPosition =
            vec3 (planetX + vx direction * fst params)
                 (vy direction * fst params + snd params)
                 (planetZ + vz direction * fst params),
          planetPosition = pos,
          startTime = now\<rparr>)"

definition CameraZoomController ::
  "PlanetInfo list \<Rightarrow> SolarSystemProps \<Rightarrow> positions \<Rightarrow> string option \<Rightarrow> int \<Rightarrow> int
     \<Rightarrow> CameraScene \<Rightarrow> CameraScene" where
  \<comment> \<open>the effect; \<open>now\<close> is the clock read for \<open>startTime\<close>, \<open>now1\<close> the clock read by the
      first call of \<open>animateZoom\<close>\<close>
  "CameraZoomController pdata props planetPositions targetPlanet now now1 s =
     (case targetPlanet of
        None \<Rightarrow> s
      | Some tp \<Rightarrow>
          if tp = [] then s
          else
            (case controls_target s of
               None \<Rightarrow> s
             | Some target \<Rightarrow>
                 let s1 = s\<lparr>isZooming := True\<rparr>
                 in (case find (\<lambda>p. p_id p = tp) pdata of
                       None \<Rightarrow> s1
                     | Some planet \<Rightarrow>
                         (case planetPositions tp of
                            None \<Rightarrow>
                              s1\<lparr>console := console s1 @ [''Planet position not found for: '' @ tp]\<rparr>
                          | Some pos \<Rightarrow>
                              animateZoom
                                (captureZoom props planet pos (camera_position s1) target now)
                                now1 s1))))"

section \<open>Galaxy particle generators\<close>

text \<open>
  The three generators of the \<open>Galaxy\<close> component.  A \<open>Float32Array\<close> is a list of numbers
  of fixed length.  \<open>new Float32Array(n)\<close> throws a \<open>RangeError\<close> for a negative \<open>n\<close>, for an
  \<open>n\<close> above the length limit of the engine, and when the engine cannot allocate the
  array; an indexed write is \<open>xs[i := v]\<close>, which like the typed array ignores an index
  out of range.  Three things the generators take from outside are parameters:
  \<open>engine\<close>, where \<open>engine k n\<close> tells whether the engine makes the array of length \<open>n\<close>
  that the allocation number \<open>k\<close> of the generator asks for; \<open>col\<close>, the colour
  \<open>new THREE.Color(c)\<close> parses from a string; and \<open>rnd\<close>, where \<open>rnd k\<close> is the value of the
  call number \<open>k\<close> of \<open>Math.random()\<close>; the loop state counts the calls made so far.
\<close>

record Color =
  col_r :: real
  col_g :: real
  col_b :: real

definition color_lerp :: "Color \<Rightarrow> Color \<Rightarrow> real \<Rightarrow> Color" where
  \<comment> \<open>\<open>Color.lerp(color, alpha)\<close>\<close>
  "color_lerp c1 c2 alpha =
     \<lparr>col_r = col_r c1 + (col_r c2 - col_r c1) * alpha,
      col_g = col_g c1 + (col_g c2 - col_g c1) * alpha,
      col_b = col_b c1 + (col_b c2 - col_b c1) * alpha\<rparr>"

definition newFloat32Array :: "(int \<Rightarrow> bool) \<Rightarrow> int \<Rightarrow> js_error + real list" where
  "newFloat32Array fits n =
     (if n < 0 \<or> \<not> fits n then Inl RangeError else Inr (replicate (nat n) 0))"

record ParticleBuffers =
  positions_buf :: "real list"
  colors_buf :: "real list"
  scales_buf :: "real list"
  draws :: nat

record GalaxyParticles =
  g_positions :: "real list"
  g_colors :: "real list"
  g_scales :: "real list"
  g_count :: int

definition allocate :: "(nat \<Rightarrow> int \<Rightarrow> bool) \<Rightarrow> int \<Rightarrow> js_error + ParticleBuffers" where
  \<comment> \<open>the three \<open>new Float32Array\<close> at the head of every generator\<close>
  "allocate engine particleCount =
     (case newFloat32Array (engine 0) (particleCount * 3) of
        Inl e \<Rightarrow> Inl e
      | Inr positions \<Rightarrow>
          (case newFloat32Array (engine 1) (particleCount * 3) of
             Inl e \<Rightarrow> Inl e
           | Inr colors \<Rightarrow>
               (case newFloat32Array (engine 2) particleCount of
                  Inl e \<Rightarrow> Inl e
                | Inr scales \<Rightarrow>
                    Inr \<lparr>positions_buf = positions, colors_buf = colors, scales_buf = scales,
                         draws = 0\<rparr>)))"

definition writeParticle ::
  "nat \<Rightarrow> real \<Rightarrow> real \<Rightarrow> real \<Rightarrow> Color \<Rightarrow> real \<Rightarrow> nat \<Rightarrow> ParticleBuffers \<Rightarrow> ParticleBuffers" where
  \<comment> \<open>the seven indexed writes of one loop iteration, and the number of random draws it made\<close>
  "writeParticle i x y z c scale n st =
     (let i3 = i * 3
      in st\<lparr>positions_buf := (positions_buf st)[i3 := x, i3 + 1 := y, i3 + 2 := z],
            colors_buf := (colors_buf st)[i3 := col_r c, i3 + 1 := col_g c, i3 + 2 := col_b c],
            scales_buf := (scales_buf st)[i := scale],
            draws := draws st + n\<rparr>)"

definition result :: "int \<Rightarrow> ParticleBuffers \<Rightarrow> GalaxyParticles" where
  \<comment> \<open>\<open>return { positions, colors, scales, count: particleCount }\<close>\<close>
  "result particleCount st =
     \<lparr>g_positions = positions_buf st, g_colors = colors_buf st, g_scales = scales_buf st,
      g_count = particleCount\<rparr>"

definition spiralParticle ::
  "(string \<Rightarrow> Color) \<Rightarrow> (nat \<Rightarrow> real) \<Rightarrow> real \<Rightarrow> string \<Rightarrow> nat \<Rightarrow> ParticleBuffers \<Rightarrow> nat
     \<Rightarrow> ParticleBuffers" where
  "spiralParticle col rnd sz color armCount st i =
     (let k = draws st;
          baseColor = col color;
          armIndex = i mod armCount;
          armAngle = (real armIndex / real armCount) * pi * 2;
          spiralAngle = armAngle + (rnd k * 0.3 - 0.15);
          radius = (rnd (k + 1) powr 0.7) * sz;
          spiralOffset = radius * 0.05;
          ang = spiralAngle + spiralOffset;
          x = cos ang * radius * (0.8 + rnd (k + 2) * 0.4);
          z = sin ang * radius * (0.8 + rnd (k + 3) * 0.4);
          y = (rnd (k + 4) - 0.5) * sz * 0.1;
          distanceRatio = radius / sz;
          centerColor = col ''#FFEB3B'';
          edgeColor = baseColor;
          finalColor = color_lerp centerColor edgeColor distanceRatio
      in writeParticle i x y z finalColor (rnd (k + 5) * (2 - distanceRatio) + 0.5) 6 st)"

definition createSpiralGalaxy ::
  "(nat \<Rightarrow> int \<Rightarrow> bool) \<Rightarrow> (string \<Rightarrow> Color) \<Rightarrow> (nat \<Rightarrow> real) \<Rightarrow> real \<Rightarrow> string \<Rightarrow> nat \<Rightarrow> js_error + GalaxyParticles" where
  "createSpiralGalaxy engine col rnd sz color armCount =
     (let particleCount = \<lfloor>sz * 100\<rfloor>
      in case allocate engine particleCount of
           Inl e \<Rightarrow> Inl e
         | Inr st \<Rightarrow>
             Inr (result particleCount
                    (foldl (spiralParticle col rnd sz color armCount) st [0..<nat particleCount])))"

definition ellipticalParticle ::
  "(string \<Rightarrow> Color) \<Rightarrow> (nat \<Rightarrow> real) \<Rightarrow> real \<Rightarrow> string \<Rightarrow> ParticleBuffers \<Rightarrow> nat \<Rightarrow> ParticleBuffers" where
  "ellipticalParticle col rnd sz color st i =
     (let k = draws st;
          baseColor = col color;
          theta = rnd k * pi * 2;
          phi = arccos (2 * rnd (k + 1) - 1);
          radius = (rnd (k + 2) powr 0.5) * sz;
          x = radius * sin phi * cos theta;
          y = radius * sin phi * sin theta * 0.6;
          z = radius * cos phi;
          distanceRatio = radius / sz;
          centerColor = col ''#FFF8DC'';
          edgeColor = baseColor;
          finalColor = color_lerp centerColor edgeColor distanceRatio
      in writeParticle i x y z finalColor (rnd (k + 3) * (1.5 - distanceRatio * 0.5) + 0.3) 4 st)"

definition createEllipticalGalaxy ::
  "(nat \<Rightarrow> int \<Rightarrow> bool) \<Rightarrow> (string \<Rightarrow> Color) \<Rightarrow> (nat \<Rightarrow> real) \<Rightarrow> real \<Rightarrow> string \<Rightarrow> js_error + GalaxyParticles" where
  "createEllipticalGalaxy engine col rnd sz color =
     (let particleCount = \<lfloor>sz * 80\<rfloor>
      in case allocate engine particleCount of
           Inl e \<Rightarrow> Inl e
         | Inr st \<Rightarrow>
             Inr (result particleCount
                    (foldl (ellipticalParticle col rnd sz color) st [0..<nat particleCount])))"

definition irregularParticle ::
  "(string \<Rightarrow> Color) \<Rightarrow> (nat \<Rightarrow> real) \<Rightarrow> real \<Rightarrow> string \<Rightarrow> ParticleBuffers \<Rightarrow> nat \<Rightarrow> ParticleBuffers" where
  "irregularParticle col rnd sz color st i =
     (let k = draws st;
          baseColor = col color;
          centerCount = 3 + \<lfloor>rnd k * 3\<rfloor>;
          centerIndex = \<lfloor>rnd (k + 1) * real_of_int centerCount\<rfloor>;
          centerAngle = (real_of_int centerIndex / real_of_int centerCount) * pi * 2;
          centerOffset = sz * 0.3;
          centerX = cos centerAngle * centerOffset * rnd (k + 2);
          centerZ = sin centerAngle * centerOffset * rnd (k + 3);
          localRadius = (rnd (k + 4) powr 0.3) * sz * 0.8;
          ang = rnd (k + 5) * pi * 2;
          x = centerX + cos ang * localRadius;
          y = (rnd (k + 6) - 0.5) * sz * 0.3;
          z = centerZ + sin ang * localRadius;
          regionColor = (if rnd (k + 7) > 0.6 then col ''#FF6B6B'' else baseColor)
      in writeParticle i x y z regionColor (rnd (k + 8) * 1.5 + 0.5) 9 st)"

definition createIrregularGalaxy ::
  "(nat \<Rightarrow> int \<Rightarrow> bool) \<Rightarrow> (string \<Rightarrow> Color) \<Rightarrow> (nat \<Rightarrow> real) \<Rightarrow> real \<Rightarrow> string \<Rightarrow> js_error + GalaxyParticles" where
  "createIrregularGalaxy engine col rnd sz color =
     (let particleCount = \<lfloor>sz * 60\<rfloor>
      in case allocate engine particleCount of
           Inl e \<Rightarrow> Inl e
         | Inr st \<Rightarrow>
             Inr (result particleCount
                    (foldl (irregularParticle col rnd sz color) st [0..<nat particleCount])))"

text \<open>The choice of the generator by \<open>galaxy.type\<close>, as the \<open>Galaxy\<close> component makes it.\<close>

datatype GalaxyType = Spiral | Elliptical | Irregular | Dwarf

record GalaxyData =
  gal_id :: string
  gal_type :: GalaxyType
  gal_displaySize :: real
  gal_color :: string

definition particleData ::
  "(nat \<Rightarrow> int \<Rightarrow> bool) \<Rightarrow> (string \<Rightarrow> Color) \<Rightarrow> (nat \<Rightarrow> real) \<Rightarrow> GalaxyData \<Rightarrow> real \<Rightarrow> js_error + GalaxyParticles" where
  "particleData engine col rnd galaxy scale =
     (let sz = gal_displaySize galaxy * scale
      in case gal_type galaxy of
           Spiral \<Rightarrow>
             createSpiralGalaxy engine col rnd sz (gal_color galaxy)
               (if gal_id galaxy = ''whirlpool'' then 2 else 4)
         | Elliptical \<Rightarrow> createEllipticalGalaxy engine col rnd sz (gal_color galaxy)
         | Irregular \<Rightarrow> createIrregularGalaxy engine col rnd sz (gal_color galaxy)
         | Dwarf \<Rightarrow> createIrregularGalaxy engine col rnd (sz * 0.5) (gal_color galaxy))"

section \<open>Invariants and concrete scenes\<close>

text \<open>The three typed arrays of a generator have the lengths that go with \<open>n\<close> particles.\<close>

definition buffers_ok :: "int \<Rightarrow> ParticleBuffers \<Rightarrow> bool" where
  "buffers_ok n st \<longleftrightarrow>
     int (length (positions_buf st)) = 3 * n \<and> int (length (colors_buf st)) = 3 * n \<and>
     int (length (scales_buf st)) = n"

text \<open>A colour parser that knows one colour, random draws that are all one half, an engine.\<close>

definition white :: Color where
  "white = \<lparr>col_r = 1, col_g = 1, col_b = 1\<rparr>"

definition allWhite :: "string \<Rightarrow> Color" where
  "allWhite c = white"

definition halves :: "nat \<Rightarrow> real" where
  "halves k = 1 / 2"

definition engineLimit :: "nat \<Rightarrow> int \<Rightarrow> bool" where
  \<comment> \<open>an engine that makes every array of up to \<open>2^32 - 1\<close> elements\<close>
  "engineLimit k n \<longleftrightarrow> n \<le> 4294967295"

text \<open>
  The page starts with time speed 5, playback on, the trail style \<open>classic\<close> of length 50
  and realistic rendering off.
\<close>

definition defaultProps :: SolarSystemProps where
  "defaultProps =
     \<lparr>timeSpeed = 5, realScale = False, trailType = ''classic'', trailLength = 50,
      isPlaying = True, realisticRendering = False\<rparr>"

definition pausedProps :: SolarSystemProps where
  "pausedProps = defaultProps\<lparr>isPlaying := False\<rparr>"


definition earth :: PlanetInfo where
  "earth = mkPlanet ''earth'' 1 16 1 25"

definition moon :: SatelliteData where
  "moon = mkSatellite ''moon'' 0.3 2 2"

text \<open>
  A planet and a satellite as they are once mounted: the angle is the random start
  angle, the trail is empty, the groups and the mesh are at their default position and
  rotation.
\<close>

definition mountedPlanet :: "real \<Rightarrow> PlanetState" where
  "mountedPlanet a =
     \<lparr>angle = a, trailPositions = [], orbitRef = Some (vec3 0 0 0),
      meshRef = Some \<lparr>rot_x = 0, rot_y = 0, rot_z = 0\<rparr>\<rparr>"

definition mountedSatellite :: "real \<Rightarrow> SatelliteState" where
  "mountedSatellite a = \<lparr>sat_angle = a, sat_orbitRef = Some (vec3 0 0 0)\<rparr>"

definition mountedRealistic :: RealisticPlanetState where
  "mountedRealistic =
     \<lparr>rp_groupRef = True, rp_planetRef = Some \<lparr>rot_x = 0, rot_y = 0, rot_z = 0\<rparr>,
      rp_cloudsRef = None, rp_atmosphereRef = None, rp_emissiveIntensity = None\<rparr>"

definition unmountedRealistic :: RealisticPlanetState where
  "unmountedRealistic =
     \<lparr>rp_groupRef = False, rp_planetRef = None, rp_cloudsRef = None, rp_atmosphereRef = None,
      rp_emissiveIntensity = None\<rparr>"

definition earthSystem :: PlanetSystem where
  \<comment> \<open>the earth and the moon after the first render, before the first frame\<close>
  "earthSystem =
     \<lparr>sys_planet = mountedPlanet (pi / 2 - 1 / 100), sys_realistic = unmountedRealistic,
      sys_planetPosition = vec3 0 0 0,
      sys_satellites = [(moon, mountedSatellite (2 * pi - 1 / 50))]\<rparr>"

definition earthAfterTick :: PlanetSystem where
  \<comment> \<open>the first frame, a fiftieth of a second long, and the render after it\<close>
  "earthAfterTick =
     fst (PlanetSystemTick defaultProps earth None 0 (1 / 50) (earthSystem, Map.empty))"

definition pausedRealistic :: SolarSystemProps where
  "pausedRealistic = pausedProps\<lparr>realisticRendering := True\<rparr>"

definition earthSystemRealistic :: PlanetSystem where
  \<comment> \<open>the same under realistic rendering: \<open>RealisticPlanet\<close> holds the planet's mesh\<close>
  "earthSystemRealistic =
     earthSystem\<lparr>sys_planet := (mountedPlanet (pi / 2 - 1 / 100))\<lparr>meshRef := None\<rparr>,
                 sys_realistic := mountedRealistic\<rparr>"

definition scene0 :: CameraScene where
  \<comment> \<open>the scene at its start: camera at \<open>(0, 50, 50)\<close>, the controls aimed at the origin\<close>
  "scene0 =
     \<lparr>camera_position = vec3 0 50 50, controls_target = Some (vec3 0 0 0), isZooming = False,
      animationFrames = [], console = [], uncaught = []\<rparr>"

text \<open>
  A focus on the earth that the earth moves under.  At time 0 the earth has reported
  \<open>(16, 0, 0)\<close> and is selected.  At time 1000 an animation frame runs, the earth reports
  \<open>(0, 0, 16)\<close>, and the effect, which depends on the map of positions, runs again.  At
  time 2000 the next animation frame runs.
\<close>

definition positionsAtFocus :: positions where
  "positionsAtFocus = handlePlanetPositionUpdate ''earth'' (vec3 16 0 0) Map.empty"


definition focusStarted :: CameraScene where
  "focusStarted =
     CameraZoomController planetData defaultProps positionsAtFocus (Some ''earth'') 0 0 scene0"










section \<open>Kinematics: what one frame does\<close>

lemma PlanetFrame_paused: "\<not> isPlaying props \<Longrightarrow> PlanetFrame props planet delta sp = sp"
  by (simp add: PlanetFrame_def)

lemma SatelliteFrame_paused:
  "\<not> isPlaying props \<Longrightarrow> SatelliteFrame props satellite pp delta st = st"
  by (simp add: SatelliteFrame_def)

lemma PlanetFrame_angle:
  "angle (fst (PlanetFrame props planet delta sp)) =
     angle (fst sp) + (if isPlaying props then delta * p_speed planet * timeSpeed props * 0.1 else 0)"
  by (simp add: PlanetFrame_def Let_def split: option.splits)

lemma SatelliteFrame_angle:
  "sat_angle (SatelliteFrame props satellite pp delta st) =
     sat_angle st + (if isPlaying props then delta * s_speed satellite * timeSpeed props * 0.1 else 0)"
  by (simp add: SatelliteFrame_def Let_def)

lemma PlanetFrames_Cons:
  "PlanetFrames planet (e # events) c = PlanetFrames planet events (PlanetEvent planet e c)"
  by (simp add: PlanetFrames_def)

lemma SatelliteFrames_Cons:
  "SatelliteFrames satellite (e # events) c =
     SatelliteFrames satellite events (SatelliteEvent satellite e c)"
  by (simp add: SatelliteFrames_def)

lemma withRenders_Cons: "withRenders (f # fs) = Frame f # Render # withRenders fs"
  by (simp add: withRenders_def)

lemma PlanetEvent_framed_rendered:
  "PlanetEvent planet Render (PlanetEvent planet (Frame (props, delta)) c) =
     (fst c + (if isPlaying props then delta * p_speed planet * timeSpeed props * 0.1
               else angle (fst (snd c)) - fst c),
      snd (PlanetEvent planet (Frame (props, delta)) c))"
  by (simp add: PlanetEvent_def PlanetFrame_angle)

lemma PlanetFrames_withRenders_angle:
  assumes "fst c = angle (fst (snd c))"
  shows "angle (fst (snd (PlanetFrames planet (withRenders (map (Pair props) deltas)) c))) =
           angle (fst (snd c)) +
           (if isPlaying props then sum_list deltas * p_speed planet * timeSpeed props * 0.1 else 0)"
  using assms
proof (induction deltas arbitrary: c)
  case Nil
  show ?case by (simp add: PlanetFrames_def withRenders_def)
next
  case (Cons d deltas)
  let ?c = "PlanetEvent planet Render (PlanetEvent planet (Frame (props, d)) c)"
  have r: "fst ?c = angle (fst (snd ?c))"
    by (simp add: PlanetEvent_def)
  have a: "angle (fst (snd ?c)) =
      angle (fst (snd c)) + (if isPlaying props then d * p_speed planet * timeSpeed props * 0.1 else 0)"
    using Cons.prems by (simp add: PlanetEvent_def PlanetFrame_angle)
  show ?case
    using Cons.IH [OF r] by (simp add: withRenders_Cons PlanetFrames_Cons a algebra_simps)
qed

lemma SatelliteFrames_withRenders_angle:
  assumes "fst c = sat_angle (snd c)"
  shows "sat_angle (snd (SatelliteFrames satellite (withRenders (map (Pair props) steps)) c)) =
           sat_angle (snd c) +
           (if isPlaying props
            then sum_list (map snd steps) * s_speed satellite * timeSpeed props * 0.1 else 0)"
  using assms
proof (induction steps arbitrary: c)
  case Nil
  show ?case by (simp add: SatelliteFrames_def withRenders_def)
next
  case (Cons f steps)
  let ?c = "SatelliteEvent satellite Render (SatelliteEvent satellite (Frame (props, f)) c)"
  have r: "fst ?c = sat_angle (snd ?c)"
    by (simp add: SatelliteEvent_def)
  have a: "sat_angle (snd ?c) =
      sat_angle (snd c) +
      (if isPlaying props then snd f * s_speed satellite * timeSpeed props * 0.1 else 0)"
    using Cons.prems by (simp add: SatelliteEvent_def SatelliteFrame_angle)
  show ?case
    using Cons.IH [OF r] by (simp add: withRenders_Cons SatelliteFrames_Cons a algebra_simps)
qed

text \<open>
  On the schedule that commits a render after every frame, the frames add up: any
  sequence of deltas leaves the angle where one frame with their sum leaves it.
\<close>

lemma orbital_angle_with_renders:
  assumes "fst c = angle (fst (snd c))"
  shows "angle (fst (snd (PlanetFrames planet (withRenders (map (Pair props) deltas)) c))) =
           angle (fst (snd (PlanetFrames planet (withRenders [(props, sum_list deltas)]) c)))"
  using PlanetFrames_withRenders_angle [OF assms, of planet props deltas]
    PlanetFrames_withRenders_angle [OF assms, of planet props "[sum_list deltas]"]
  by simp

text \<open>
  C2, as the code has it.  One frame while playback is on takes the orbital angle \<open>\<theta>\<close> of
  a planet or a satellite to \<open>\<theta> + \<Delta>t \<cdot> \<omega> \<cdot> m \<cdot> 0.1\<close>, where \<open>\<omega>\<close> is the speed of the body in the
  data table, \<open>m\<close> the time speed and \<open>\<Delta>t\<close> the frame delta: the step carries the constant
  factor \<open>0.1\<close>.
\<close>

theorem orbital_angle_step:
  "isPlaying props \<Longrightarrow>
     angle (fst (PlanetFrame props planet delta sp)) =
       angle (fst sp) + delta * p_speed planet * timeSpeed props * 0.1 \<and>
     sat_angle (SatelliteFrame props satellite pp delta st) =
       sat_angle st + delta * s_speed satellite * timeSpeed props * 0.1"
  by (simp add: PlanetFrame_angle SatelliteFrame_angle)

theorem orbital_angle_step_witness:
  "isPlaying defaultProps \<and>
   angle (fst (PlanetFrame defaultProps earth (1 / 50) (mountedPlanet 0, Map.empty))) = 1 / 100 \<and>
   sat_angle (SatelliteFrame defaultProps moon (vec3 0 0 0) (1 / 50) (mountedSatellite 0)) = 1 / 50"
  using orbital_angle_step [of defaultProps earth "1 / 50" "(mountedPlanet 0, Map.empty)"
      moon "vec3 0 0 0" "mountedSatellite 0"]
  by (simp add: defaultProps_def earth_def mkPlanet_def moon_def mkSatellite_def
      mountedPlanet_def mountedSatellite_def)

text \<open>
  C2 as stated, \<open>\<theta>' = \<theta> + \<omega> \<cdot> m \<cdot> \<Delta>t\<close>, fails: for the earth (speed 1) at angle 0, time
  speed 5 and a frame of a fiftieth of a second the claim gives \<open>1/10\<close>, the code
  \<open>1/100\<close>.
\<close>

theorem orbital_angle_step_counterexample:
  "isPlaying defaultProps \<and>
   angle (fst (PlanetFrame defaultProps earth (1 / 50) (mountedPlanet 0, Map.empty))) \<noteq>
     angle (mountedPlanet 0) + p_speed earth * timeSpeed defaultProps * (1 / 50)"
  by (simp add: PlanetFrame_angle defaultProps_def earth_def mkPlanet_def mountedPlanet_def)

text \<open>
  C3.  The angle is integrated frame by frame only where a render is committed between
  the frames.  Two frames of a tenth of a second with no render between them both read
  the angle of the same render and both write \<open>angle + \<Delta>t \<cdot> \<omega> \<cdot> m \<cdot> 0.1\<close> for their own
  \<open>\<Delta>t\<close>: the earth at angle 0 and time speed 5 ends at \<open>1/20\<close>, the moon at \<open>1/10\<close>, where
  one frame of two tenths of a second ends at \<open>1/10\<close> and at \<open>2/10\<close>.
\<close>

theorem frames_without_render_advance_once:
  "angle (fst (snd (PlanetFrames earth
      [Frame (defaultProps, 1 / 10), Frame (defaultProps, 1 / 10), Render]
      (0, mountedPlanet 0, Map.empty)))) = 1 / 20 \<and>
   angle (fst (snd (PlanetFrames earth [Frame (defaultProps, 2 / 10), Render]
      (0, mountedPlanet 0, Map.empty)))) = 1 / 10 \<and>
   sat_angle (snd (SatelliteFrames moon
      [Frame (defaultProps, vec3 0 0 0, 1 / 10), Frame (defaultProps, vec3 0 0 0, 1 / 10), Render]
      (0, mountedSatellite 0))) = 1 / 10 \<and>
   sat_angle (snd (SatelliteFrames moon [Frame (defaultProps, vec3 0 0 0, 2 / 10), Render]
      (0, mountedSatellite 0))) = 2 / 10"
  by (simp add: PlanetFrames_def PlanetEvent_def PlanetFrame_angle SatelliteFrames_def
      SatelliteEvent_def SatelliteFrame_angle defaultProps_def earth_def mkPlanet_def moon_def
      mkSatellite_def)

section \<open>The trail\<close>

lemma slice0_length: "0 \<le> e \<Longrightarrow> int (length (slice0 xs e)) \<le> e"
  by (simp add: slice0_def)





lemma PlanetFrame_reported:
  assumes "isPlaying props" and "orbitRef (fst sp) = Some pos"
  shows "snd (PlanetFrame props planet delta sp) (p_id planet) =
           Some (vec3 (cos (angle (fst (PlanetFrame props planet delta sp))) *
                        (if realScale props then p_realDistance planet else p_distance planet))
                      0
                      (sin (angle (fst (PlanetFrame props planet delta sp))) *
                        (if realScale props then p_realDistance planet else p_distance planet)))"
  using assms
  by (simp add: PlanetFrame_def Let_def handlePlanetPositionUpdate_def split: option.splits)




section \<open>Pausing\<close>

text \<open>
  While playback is off, a frame of \<open>Planet\<close> and a frame of \<open>Satellite\<close> change nothing,
  for any time speed: the orbital angle, the position of the orbit group, the trail, the
  reported positions and the rotation that \<open>Planet\<close> itself gives its mesh stay as they
  are, and a later frame with playback on advances the angle from that value.
\<close>

lemma paused_frame_changes_nothing:
  "\<not> isPlaying props \<Longrightarrow>
     PlanetFrame props planet delta sp = sp \<and>
     SatelliteFrame props satellite pp delta st = st \<and>
     PlanetEvent planet (Frame (props, delta)) c = c \<and>
     SatelliteEvent satellite (Frame (props, pp, delta)) d = d"
  by (simp add: PlanetFrame_paused SatelliteFrame_paused PlanetEvent_def SatelliteEvent_def)

text \<open>
  C6.  The self-rotation of a planet is not frozen under realistic rendering.  There the
  planet is spun by the frame callback of \<open>RealisticPlanet\<close>, with the same table of
  speeds and the same time speed as the callback of \<open>Planet\<close>, but \<open>RealisticPlanet\<close> is
  not given the playback flag: with playback off, one frame of a fiftieth of a second
  at time speed 5 turns the earth by \<open>1/50 \<cdot> 0.2 \<cdot> 5\<close>, while the orbital angle and the
  position stay.
\<close>

theorem paused_realistic_planet_still_spins:
  "\<not> isPlaying pausedRealistic \<and>
   rp_planetRef (sys_realistic earthSystemRealistic) = Some \<lparr>rot_x = 0, rot_y = 0, rot_z = 0\<rparr> \<and>
   rp_planetRef (sys_realistic (fst (PlanetSystemFrame pausedRealistic earth None 0 (1 / 50)
      (earthSystemRealistic, Map.empty)))) = Some \<lparr>rot_x = 0, rot_y = 1 / 50, rot_z = 0\<rparr> \<and>
   sys_planet (fst (PlanetSystemFrame pausedRealistic earth None 0 (1 / 50)
      (earthSystemRealistic, Map.empty))) = sys_planet earthSystemRealistic"
  by (simp add: pausedRealistic_def pausedProps_def defaultProps_def earthSystemRealistic_def
      earthSystem_def mountedRealistic_def PlanetSystemFrame_def RealisticPlanetFrame_def
      getRotationSpeed_def earth_def mkPlanet_def Let_def PlanetFrame_def)

lemma SunFrame_rotates:
  "sun_meshRef st = Some r \<Longrightarrow> sun_meshRef (SunFrame time st) = Some (r\<lparr>rot_y := rot_y r + 0.01\<rparr>)"
  by (simp add: SunFrame_def)

section \<open>Satellites and the position of their planet\<close>

lemma SatelliteFrame_position:
  assumes "isPlaying props" and "sat_orbitRef st = Some pos"
  shows "sat_orbitRef (SatelliteFrame props satellite pp delta st) =
           Some (pos\<lparr>vx := vx pp + cos (sat_angle (SatelliteFrame props satellite pp delta st)) *
                              (if realScale props then s_distance satellite * 0.3
                               else s_distance satellite),
                      vz := vz pp + sin (sat_angle (SatelliteFrame props satellite pp delta st)) *
                              (if realScale props then s_distance satellite * 0.3
                               else s_distance satellite)\<rparr>)"
  using assms by (simp add: SatelliteFrame_def Let_def)

lemma PlanetSystemTick_satellites:
  "sys_satellites (fst (PlanetSystemTick props planet cloudsSpeed time delta (sys, m))) =
     map (\<lambda>s. (fst s, SatelliteFrame props (fst s) (sys_planetPosition sys) delta (snd s)))
       (sys_satellites sys)"
  by (simp add: PlanetSystemTick_def PlanetSystemRender_def PlanetSystemFrame_def Let_def)

lemma PlanetSystemTick_rendered:
  "sys_planetPosition (fst (PlanetSystemTick props planet cloudsSpeed time delta sp)) =
     currentPosition (sys_planet (fst (PlanetSystemTick props planet cloudsSpeed time delta sp)))"
  by (simp add: PlanetSystemTick_def PlanetSystemRender_def PlanetSystemFrame_def Let_def)

lemma PlanetSystemTick_planet:
  "sys_planet (fst (PlanetSystemTick props planet cloudsSpeed time delta (sys, m))) =
     fst (PlanetFrame props planet delta (sys_planet sys, m))"
  by (simp add: PlanetSystemTick_def PlanetSystemRender_def PlanetSystemFrame_def Let_def)

text \<open>
  C4, as the code has it.  In a frame while playback is on, a satellite whose group is
  attached is put at \<open>planetPosition\<close> plus the polar offset of its own new angle and its
  distance (in \<open>x\<close> and \<open>z\<close>; \<open>y\<close> is left alone).  \<open>planetPosition\<close> is the copy of the
  position of the planet's group that the last render took: in a system whose last
  render followed the last frame, every satellite is placed from the position the planet
  had before this frame moved it, and the render after the frame takes the next copy.
\<close>

theorem satellite_placed_from_rendered_parent:
  assumes "isPlaying props"
    and "sys_planetPosition sys = currentPosition (sys_planet sys)"
  shows "sys_satellites (fst (PlanetSystemTick props planet cloudsSpeed time delta (sys, m))) =
           map (\<lambda>s. (fst s, SatelliteFrame props (fst s) (currentPosition (sys_planet sys)) delta (snd s)))
             (sys_satellites sys) \<and>
         (\<forall>satellite (st::SatelliteState) pos pp.
            sat_orbitRef st = Some pos \<longrightarrow>
            sat_orbitRef (SatelliteFrame props satellite pp delta st) =
              Some (pos\<lparr>vx := vx pp + cos (sat_angle (SatelliteFrame props satellite pp delta st)) *
                                 (if realScale props then s_distance satellite * 0.3
                                  else s_distance satellite),
                         vz := vz pp + sin (sat_angle (SatelliteFrame props satellite pp delta st)) *
                                 (if realScale props then s_distance satellite * 0.3
                                  else s_distance satellite)\<rparr>)) \<and>
         sys_planetPosition (fst (PlanetSystemTick props planet cloudsSpeed time delta (sys, m))) =
           currentPosition (sys_planet (fst (PlanetSystemTick props planet cloudsSpeed time delta (sys, m))))"
  using assms
  by (simp add: PlanetSystemTick_satellites PlanetSystemTick_rendered SatelliteFrame_position)

lemma earthAfterTick_planet: "orbitRef (sys_planet earthAfterTick) = Some (vec3 0 0 16)"
  by (simp add: earthAfterTick_def PlanetSystemTick_planet earthSystem_def mountedPlanet_def
      PlanetFrame_def defaultProps_def earth_def mkPlanet_def Let_def vec3_def)

lemma earthAfterTick_moon:
  "sys_satellites earthAfterTick = [(moon, \<lparr>sat_angle = 2 * pi, sat_orbitRef = Some (vec3 2 0 0)\<rparr>)]"
  by (simp add: earthAfterTick_def PlanetSystemTick_satellites earthSystem_def
      mountedSatellite_def SatelliteFrame_def defaultProps_def moon_def mkSatellite_def Let_def
      vec3_def)

theorem satellite_placed_from_rendered_parent_witness:
  "isPlaying defaultProps \<and>
   sys_planetPosition earthSystem = currentPosition (sys_planet earthSystem) \<and>
   sat_orbitRef (mountedSatellite (2 * pi - 1 / 50)) = Some (vec3 0 0 0) \<and>
   sys_satellites earthAfterTick =
     [(moon, SatelliteFrame defaultProps moon (vec3 0 0 0) (1 / 50) (mountedSatellite (2 * pi - 1 / 50)))] \<and>
   sat_orbitRef (SatelliteFrame defaultProps moon (vec3 0 0 0) (1 / 50) (mountedSatellite (2 * pi - 1 / 50))) =
     Some (vec3 2 0 0) \<and>
   sys_planetPosition earthAfterTick = vec3 0 0 16"
proof -
  have h1: "isPlaying defaultProps"
    by (simp add: defaultProps_def)
  have h2: "sys_planetPosition earthSystem = currentPosition (sys_planet earthSystem)"
    by (simp add: earthSystem_def currentPosition_def mountedPlanet_def)
  have h3: "sat_orbitRef (mountedSatellite (2 * pi - 1 / 50)) = Some (vec3 0 0 0)"
    by (simp add: mountedSatellite_def)
  have a: "sat_angle (SatelliteFrame defaultProps moon (vec3 0 0 0) (1 / 50)
      (mountedSatellite (2 * pi - 1 / 50))) = 2 * pi"
    by (simp add: SatelliteFrame_angle defaultProps_def moon_def mkSatellite_def
        mountedSatellite_def)
  note t = satellite_placed_from_rendered_parent [OF h1 h2, of earth None 0 "1 / 50" Map.empty]
  from t have "sys_satellites earthAfterTick =
     [(moon, SatelliteFrame defaultProps moon (vec3 0 0 0) (1 / 50) (mountedSatellite (2 * pi - 1 / 50)))]"
    by (simp add: earthAfterTick_def earthSystem_def currentPosition_def mountedPlanet_def)
  moreover from t h3
  have "sat_orbitRef (SatelliteFrame defaultProps moon (vec3 0 0 0) (1 / 50) (mountedSatellite (2 * pi - 1 / 50))) =
     Some ((vec3 0 0 0)\<lparr>vx := vx (vec3 0 0 0) + cos (sat_angle (SatelliteFrame defaultProps moon (vec3 0 0 0) (1 / 50) (mountedSatellite (2 * pi - 1 / 50)))) *
                                 (if realScale defaultProps then s_distance moon * 0.3
                                  else s_distance moon),
                         vz := vz (vec3 0 0 0) + sin (sat_angle (SatelliteFrame defaultProps moon (vec3 0 0 0) (1 / 50) (mountedSatellite (2 * pi - 1 / 50)))) *
                                 (if realScale defaultProps then s_distance moon * 0.3
                                  else s_distance moon)\<rparr>)"
    by blast
  then have "sat_orbitRef (SatelliteFrame defaultProps moon (vec3 0 0 0) (1 / 50) (mountedSatellite (2 * pi - 1 / 50))) =
     Some (vec3 2 0 0)"
    unfolding a by (simp add: defaultProps_def moon_def mkSatellite_def vec3_def)
  moreover from t have "sys_planetPosition earthAfterTick = vec3 0 0 16"
    using earthAfterTick_planet by (simp add: earthAfterTick_def currentPosition_def)
  ultimately show ?thesis
    using h1 h2 h3 by blast
qed

text \<open>
  C4 as stated has the satellite at the position its planet has in the same frame, and
  that fails.  In the first frame of the earth and the moon, the earth moves from the
  origin, where its group is mounted, to \<open>(0, 0, 16)\<close>, and the moon, whose new angle is
  \<open>2\<pi>\<close>, is put at \<open>(2, 0, 0)\<close>: the offset \<open>(2, 0, 0)\<close> from the position of the earth
  before the frame, not from \<open>(0, 0, 16)\<close>.
\<close>

theorem satellite_parent_counterexample:
  "isPlaying defaultProps \<and>
   orbitRef (sys_planet earthAfterTick) = Some (vec3 0 0 16) \<and>
   map (\<lambda>s. sat_angle (snd s)) (sys_satellites earthAfterTick) = [2 * pi] \<and>
   map (\<lambda>s. sat_orbitRef (snd s)) (sys_satellites earthAfterTick) = [Some (vec3 2 0 0)] \<and>
   vec3 2 0 0 \<noteq> vec3 (0 + cos (2 * pi) * s_distance moon) 0 (16 + sin (2 * pi) * s_distance moon)"
  by (simp add: earthAfterTick_planet earthAfterTick_moon defaultProps_def vec3_def moon_def
      mkSatellite_def)

section \<open>The camera focus controller: steps of an animation\<close>

lemma find_earth: "find (\<lambda>p. p_id p = ''earth'') planetData = Some earth"
  by (simp add: planetData_def mkPlanet_def earth_def)

lemma lerpVectors_0: "lerpVectors v1 v2 0 = v1"
  by (simp add: lerpVectors_def vec3_def)

lemma lerpVectors_1: "lerpVectors v1 v2 1 = v2"
  by (simp add: lerpVectors_def vec3_def)

lemma distanceTo_self: "distanceTo v v = 0"
  by (simp add: distanceTo_def vlength_def vec3_def)

lemma easeOut_0: "easeOut 0 = 0"
  by (simp add: easeOut_def)

lemma easeOut_1: "easeOut 1 = 1"
  by (simp add: easeOut_def)



lemma animateZoom_target:
  "controls_target s = Some t \<Longrightarrow>
   controls_target (animateZoom a now s) =
     Some (if linearProgress a now < 1
           then lerpVectors (startTarget a) (planetPosition a) (easeOut (linearProgress a now))
           else planetPosition a)"
  by (simp add: animateZoom_def Let_def)

lemma animateZoom_frames:
  "controls_target s = Some t \<Longrightarrow>
   animationFrames (animateZoom a now s) =
     (if linearProgress a now < 1 then animationFrames s @ [a] else animationFrames s)"
  by (simp add: animateZoom_def Let_def)

lemma animateZoom_isZooming:
  "controls_target s = Some t \<Longrightarrow>
   isZooming (animateZoom a now s) = (if linearProgress a now < 1 then isZooming s else False)"
  by (simp add: animateZoom_def Let_def)

lemma animateZoom_quiet:
  "controls_target s = Some t \<Longrightarrow>
   uncaught (animateZoom a now s) = uncaught s \<and> console (animateZoom a now s) = console s"
  by (simp add: animateZoom_def Let_def)

lemma captureZoom_fields:
  "startPosition (captureZoom props planet pos cam t now) = cam"
  "startTarget (captureZoom props planet pos cam t now) = t"
  "planetPosition (captureZoom props planet pos cam t now) = pos"
  "startTime (captureZoom props planet pos cam t now) = now"
  by (simp_all add: captureZoom_def Let_def)

lemma CameraZoomController_resolved:
  assumes "tp \<noteq> []" and "controls_target s = Some t"
    and "find (\<lambda>p. p_id p = tp) pdata = Some planet" and "positions tp = Some pos"
  shows "CameraZoomController pdata props positions (Some tp) now now1 s =
           animateZoom (captureZoom props planet pos (camera_position s) t now) now1
             (s\<lparr>isZooming := True\<rparr>)"
  using assms by (simp add: CameraZoomController_def Let_def)

lemma CameraZoomController_unresolved:
  assumes "find (\<lambda>p. p_id p = tp) pdata = None \<or> positions tp = None"
  shows "camera_position (CameraZoomController pdata props positions (Some tp) now now1 s) =
           camera_position s \<and>
         controls_target (CameraZoomController pdata props positions (Some tp) now now1 s) =
           controls_target s \<and>
         animationFrames (CameraZoomController pdata props positions (Some tp) now now1 s) =
           animationFrames s \<and>
         uncaught (CameraZoomController pdata props positions (Some tp) now now1 s) = uncaught s"
  using assms by (auto simp: CameraZoomController_def Let_def split: option.splits)

lemma runAnimationFrames_one:
  "animationFrames s = [a] \<Longrightarrow>
   runAnimationFrames now s = animateZoom a now (s\<lparr>animationFrames := []\<rparr>)"
  by (simp add: runAnimationFrames_def)



text \<open>The scenes of the focus on the moving earth, field by field.\<close>

lemma focusStarted_fields:
  "controls_target focusStarted = Some (vec3 0 0 0)"
  "animationFrames focusStarted =
     [captureZoom defaultProps earth (vec3 16 0 0) (vec3 0 50 50) (vec3 0 0 0) 0]"
proof -
  have e: "focusStarted =
      animateZoom (captureZoom defaultProps earth (vec3 16 0 0) (vec3 0 50 50) (vec3 0 0 0) 0) 0
        (scene0\<lparr>isZooming := True\<rparr>)"
    unfolding focusStarted_def
    using CameraZoomController_resolved [of "''earth''" scene0 "vec3 0 0 0" planetData earth
        positionsAtFocus "vec3 16 0 0" defaultProps 0 0]
    by (simp add: find_earth scene0_def positionsAtFocus_def handlePlanetPositionUpdate_def)
  have p: "linearProgress (captureZoom defaultProps earth (vec3 16 0 0) (vec3 0 50 50) (vec3 0 0 0) 0) 0 = 0"
    by (simp add: linearProgress_def duration_def captureZoom_fields)
  have c: "controls_target (scene0\<lparr>isZooming := True\<rparr>) = Some (vec3 0 0 0)"
    by (simp add: scene0_def)
  show "controls_target focusStarted = Some (vec3 0 0 0)"
    unfolding e using animateZoom_target [OF c] by (simp add: p easeOut_0 lerpVectors_0 captureZoom_fields)
  show "animationFrames focusStarted =
     [captureZoom defaultProps earth (vec3 16 0 0) (vec3 0 50 50) (vec3 0 0 0) 0]"
    unfolding e using animateZoom_frames [OF c] by (simp add: p scene0_def)
qed

lemma focusAt1000_fields:
  "controls_target (runAnimationFrames 1000 focusStarted) = Some (vec3 14 0 0)"
  "animationFrames (runAnimationFrames 1000 focusStarted) =
     [captureZoom defaultProps earth (vec3 16 0 0) (vec3 0 50 50) (vec3 0 0 0) 0]"
proof -
  have e: "runAnimationFrames 1000 focusStarted =
      animateZoom (captureZoom defaultProps earth (vec3 16 0 0) (vec3 0 50 50) (vec3 0 0 0) 0) 1000
        (focusStarted\<lparr>animationFrames := []\<rparr>)"
    by (rule runAnimationFrames_one) (rule focusStarted_fields)
  have p: "linearProgress (captureZoom defaultProps earth (vec3 16 0 0) (vec3 0 50 50) (vec3 0 0 0) 0) 1000
      = 1 / 2"
    by (simp add: linearProgress_def duration_def captureZoom_fields)
  have c: "controls_target (focusStarted\<lparr>animationFrames := []\<rparr>) = Some (vec3 0 0 0)"
    by (simp add: focusStarted_fields)
  have "controls_target (runAnimationFrames 1000 focusStarted) =
      Some (lerpVectors (vec3 0 0 0) (vec3 16 0 0) (easeOut (1 / 2)))"
    unfolding e using animateZoom_target [OF c] by (simp add: p captureZoom_fields)
  then show "controls_target (runAnimationFrames 1000 focusStarted) = Some (vec3 14 0 0)"
    by (simp add: easeOut_def lerpVectors_def vec3_def power3_eq_cube)
  show "animationFrames (runAnimationFrames 1000 focusStarted) =
     [captureZoom defaultProps earth (vec3 16 0 0) (vec3 0 50 50) (vec3 0 0 0) 0]"
    unfolding e using animateZoom_frames [OF c] by (simp add: p)
qed







section \<open>The camera focus controller: starting a focus\<close>


lemma planetData_ids:
  "p_id ` set planetData =
     {''mercury'', ''venus'', ''earth'', ''mars'', ''jupiter'', ''saturn'', ''uranus'', ''neptune''}"
  by (simp add: planetData_def mkPlanet_def)

lemma find_not_in_table: "tp \<notin> p_id ` set pdata \<Longrightarrow> find (\<lambda>p. p_id p = tp) pdata = None"
  by (auto simp: find_None_iff)






















text \<open>
  C8.  A focus on an id whose position the map does not hold raises nothing and is a
  no-op for the camera: the camera position, the look-at target of the orbit controls
  and the waiting animations with all they captured are as before, and nothing but the
  console and the flag \<open>isZooming\<close>, which no code reads, is written.
\<close>

theorem unresolved_focus_is_noop:
  "positions tp = None \<Longrightarrow>
     camera_position (CameraZoomController pdata props positions (Some tp) now now1 s) =
       camera_position s \<and>
     controls_target (CameraZoomController pdata props positions (Some tp) now now1 s) =
       controls_target s \<and>
     animationFrames (CameraZoomController pdata props positions (Some tp) now now1 s) =
       animationFrames s \<and>
     uncaught (CameraZoomController pdata props positions (Some tp) now now1 s) = uncaught s \<and>
     (\<exists>z c. CameraZoomController pdata props positions (Some tp) now now1 s =
        s\<lparr>isZooming := z, console := c\<rparr>)"
proof -
  assume n: "positions tp = None"
  then have u: "find (\<lambda>p. p_id p = tp) pdata = None \<or> positions tp = None"
    by simp
  have "\<exists>z c. CameraZoomController pdata props positions (Some tp) now now1 s =
      s\<lparr>isZooming := z, console := c\<rparr>"
  proof (cases "tp = [] \<or> controls_target s = None")
    case True
    then have "CameraZoomController pdata props positions (Some tp) now now1 s =
        s\<lparr>isZooming := isZooming s, console := console s\<rparr>"
      by (auto simp: CameraZoomController_def split: option.splits)
    then show ?thesis by blast
  next
    case False
    show ?thesis
    proof (cases "find (\<lambda>p. p_id p = tp) pdata")
      case None
      then have "CameraZoomController pdata props positions (Some tp) now now1 s =
          s\<lparr>isZooming := True, console := console s\<rparr>"
        using False by (auto simp: CameraZoomController_def Let_def split: option.splits)
      then show ?thesis by blast
    next
      case (Some planet)
      then have "CameraZoomController pdata props positions (Some tp) now now1 s =
          s\<lparr>isZooming := True, console := console s @ [''Planet position not found for: '' @ tp]\<rparr>"
        using False n by (auto simp: CameraZoomController_def Let_def split: option.splits)
      then show ?thesis by blast
    qed
  qed
  then show ?thesis
    using CameraZoomController_unresolved [where positions = positions and tp = tp, OF u]
    by simp
qed

theorem unresolved_focus_is_noop_witness:
  "positionsAtFocus ''sun'' = None \<and>
   camera_position (CameraZoomController planetData defaultProps positionsAtFocus (Some ''sun'') 1000
      1000 (runAnimationFrames 1000 focusStarted)) =
     camera_position (runAnimationFrames 1000 focusStarted) \<and>
   controls_target (CameraZoomController planetData defaultProps positionsAtFocus (Some ''sun'') 1000
      1000 (runAnimationFrames 1000 focusStarted)) = Some (vec3 14 0 0) \<and>
   animationFrames (CameraZoomController planetData defaultProps positionsAtFocus (Some ''sun'') 1000
      1000 (runAnimationFrames 1000 focusStarted)) =
     [captureZoom defaultProps earth (vec3 16 0 0) (vec3 0 50 50) (vec3 0 0 0) 0] \<and>
   uncaught (CameraZoomController planetData defaultProps positionsAtFocus (Some ''sun'') 1000
      1000 (runAnimationFrames 1000 focusStarted)) = uncaught (runAnimationFrames 1000 focusStarted)"
proof -
  have h: "positionsAtFocus ''sun'' = None"
    by (simp add: positionsAtFocus_def handlePlanetPositionUpdate_def)
  show ?thesis
    using h unresolved_focus_is_noop [where positions = positionsAtFocus and tp = "''sun''"
        and pdata = planetData and props = defaultProps and now = 1000 and ?now1.0 = 1000
        and s = "runAnimationFrames 1000 focusStarted", OF h]
    by (simp add: focusAt1000_fields)
qed

text \<open>
  C10.  A selected id that is not the id of one of the eight planets of \<open>planetData\<close>
  leaves the camera position, the look-at target and the waiting animations as they
  are, whatever the map of positions holds.  \<open>sun\<close> and the ids of the eleven satellites
  are such ids, although the table \<open>zoomParams\<close> has an entry for \<open>sun\<close>.
\<close>

theorem only_planets_move_camera:
  "(tp \<notin> {''mercury'', ''venus'', ''earth'', ''mars'', ''jupiter'', ''saturn'', ''uranus'',
            ''neptune''} \<longrightarrow>
      camera_position (CameraZoomController planetData props positions (Some tp) now now1 s) =
        camera_position s \<and>
      controls_target (CameraZoomController planetData props positions (Some tp) now now1 s) =
        controls_target s \<and>
      animationFrames (CameraZoomController planetData props positions (Some tp) now now1 s) =
        animationFrames s) \<and>
   ''sun'' \<notin> p_id ` set planetData \<and>
   (\<forall>satellite\<in>set satelliteDatabase. s_id satellite \<notin> p_id ` set planetData) \<and>
   p_id ` set planetData =
     {''mercury'', ''venus'', ''earth'', ''mars'', ''jupiter'', ''saturn'', ''uranus'', ''neptune''} \<and>
   zoomParams ''sun'' = Some (18, 3)"
proof (intro conjI impI)
  assume "tp \<notin> {''mercury'', ''venus'', ''earth'', ''mars'', ''jupiter'', ''saturn'', ''uranus'',
            ''neptune''}"
  then have "tp \<notin> p_id ` set planetData"
    unfolding planetData_ids .
  then have "find (\<lambda>p. p_id p = tp) planetData = None"
    by (rule find_not_in_table)
  then have u: "find (\<lambda>p. p_id p = tp) planetData = None \<or> positions tp = None"
    by simp
  show "camera_position (CameraZoomController planetData props positions (Some tp) now now1 s) =
        camera_position s"
    using CameraZoomController_unresolved [where positions = positions and tp = tp, OF u] by simp
  show "controls_target (CameraZoomController planetData props positions (Some tp) now now1 s) =
        controls_target s"
    using CameraZoomController_unresolved [where positions = positions and tp = tp, OF u] by simp
  show "animationFrames (CameraZoomController planetData props positions (Some tp) now now1 s) =
        animationFrames s"
    using CameraZoomController_unresolved [where positions = positions and tp = tp, OF u] by simp
next
  show "''sun'' \<notin> p_id ` set planetData"
    by (simp add: planetData_ids)
next
  show "\<forall>satellite\<in>set satelliteDatabase. s_id satellite \<notin> p_id ` set planetData"
    unfolding planetData_ids by (simp add: satelliteDatabase_def mkSatellite_def)
next
  show "p_id ` set planetData =
     {''mercury'', ''venus'', ''earth'', ''mars'', ''jupiter'', ''saturn'', ''uranus'', ''neptune''}"
    by (rule planetData_ids)
next
  show "zoomParams ''sun'' = Some (18, 3)"
    by (simp add: zoomParams_def)
qed

theorem only_planets_move_camera_witness:
  "''sun'' \<notin> {''mercury'', ''venus'', ''earth'', ''mars'', ''jupiter'', ''saturn'', ''uranus'',
      ''neptune''} \<and>
   moon \<in> set satelliteDatabase \<and>
   s_id moon \<notin> p_id ` set planetData \<and>
   camera_position (CameraZoomController planetData defaultProps positionsAtFocus (Some ''sun'') 0 0
      focusStarted) = camera_position focusStarted \<and>
   controls_target (CameraZoomController planetData defaultProps positionsAtFocus (Some ''sun'') 0 0
      focusStarted) = Some (vec3 0 0 0) \<and>
   animationFrames (CameraZoomController planetData defaultProps positionsAtFocus (Some ''sun'') 0 0
      focusStarted) = animationFrames focusStarted"
proof -
  have h: "''sun'' \<notin> {''mercury'', ''venus'', ''earth'', ''mars'', ''jupiter'', ''saturn'',
      ''uranus'', ''neptune''}"
    by simp
  have m: "moon \<in> set satelliteDatabase"
    by (simp add: satelliteDatabase_def moon_def)
  note t = only_planets_move_camera [of "''sun''" defaultProps positionsAtFocus 0 0 focusStarted]
  have a: "camera_position (CameraZoomController planetData defaultProps positionsAtFocus
        (Some ''sun'') 0 0 focusStarted) = camera_position focusStarted \<and>
      controls_target (CameraZoomController planetData defaultProps positionsAtFocus
        (Some ''sun'') 0 0 focusStarted) = controls_target focusStarted \<and>
      animationFrames (CameraZoomController planetData defaultProps positionsAtFocus
        (Some ''sun'') 0 0 focusStarted) = animationFrames focusStarted"
    using t [THEN conjunct1] h by (rule mp)
  have b: "s_id moon \<notin> p_id ` set planetData"
    using t [THEN conjunct2, THEN conjunct2, THEN conjunct1] m by (rule bspec)
  have c: "controls_target focusStarted = Some (vec3 0 0 0)"
    by (rule focusStarted_fields)
  show ?thesis
    using a b c h m by (simp only: simp_thms)
qed

section \<open>Galaxy particle generators: the lengths of the arrays\<close>

lemma allocate_ok: "allocate engine n = Inr st \<Longrightarrow> buffers_ok n st"
  by (auto simp: allocate_def newFloat32Array_def buffers_ok_def split: if_splits sum.splits)

lemma allocate_total:
  "0 \<le> n \<Longrightarrow> engine 0 (n * 3) \<Longrightarrow> engine 1 (n * 3) \<Longrightarrow> engine 2 n \<Longrightarrow>
   \<exists>st. allocate engine n = Inr st"
  by (simp add: allocate_def newFloat32Array_def)

lemma allocate_error: "n < 0 \<Longrightarrow> allocate engine n = Inl RangeError"
  by (simp add: allocate_def newFloat32Array_def)

lemma allocate_too_long: "\<not> engine 0 (n * 3) \<Longrightarrow> allocate engine n = Inl RangeError"
  by (simp add: allocate_def newFloat32Array_def)

lemma writeParticle_ok: "buffers_ok n (writeParticle i x y z c sc k st) = buffers_ok n st"
  by (simp add: writeParticle_def buffers_ok_def Let_def)

lemma foldl_ok:
  assumes "\<And>st i. buffers_ok n (f st i) = buffers_ok n st"
  shows "buffers_ok n (foldl f st is) = buffers_ok n st"
  by (induction "is" arbitrary: st) (simp_all add: assms)

lemma spiralParticle_ok:
  "buffers_ok n (spiralParticle col rnd sz color armCount st i) = buffers_ok n st"
  by (simp add: spiralParticle_def Let_def writeParticle_ok)

lemma ellipticalParticle_ok:
  "buffers_ok n (ellipticalParticle col rnd sz color st i) = buffers_ok n st"
  by (simp add: ellipticalParticle_def Let_def writeParticle_ok)

lemma irregularParticle_ok:
  "buffers_ok n (irregularParticle col rnd sz color st i) = buffers_ok n st"
  by (simp add: irregularParticle_def Let_def writeParticle_ok)

lemma result_ok:
  "buffers_ok n st \<Longrightarrow>
   int (length (g_positions (result n st))) = 3 * g_count (result n st) \<and>
   int (length (g_colors (result n st))) = 3 * g_count (result n st) \<and>
   int (length (g_scales (result n st))) = g_count (result n st)"
  by (simp add: result_def buffers_ok_def)

lemma createSpiralGalaxy_lengths:
  assumes "createSpiralGalaxy engine col rnd sz color armCount = Inr g"
  shows "int (length (g_positions g)) = 3 * g_count g \<and> int (length (g_colors g)) = 3 * g_count g \<and>
         int (length (g_scales g)) = g_count g"
proof -
  obtain st where a: "allocate engine \<lfloor>sz * 100\<rfloor> = Inr st"
    and g: "g = result \<lfloor>sz * 100\<rfloor>
              (foldl (spiralParticle col rnd sz color armCount) st [0..<nat \<lfloor>sz * 100\<rfloor>])"
    using assms by (auto simp: createSpiralGalaxy_def Let_def split: sum.splits)
  have "buffers_ok \<lfloor>sz * 100\<rfloor>
      (foldl (spiralParticle col rnd sz color armCount) st [0..<nat \<lfloor>sz * 100\<rfloor>])"
    using allocate_ok [OF a] by (simp add: foldl_ok spiralParticle_ok)
  then show ?thesis
    unfolding g by (rule result_ok)
qed

lemma createEllipticalGalaxy_lengths:
  assumes "createEllipticalGalaxy engine col rnd sz color = Inr g"
  shows "int (length (g_positions g)) = 3 * g_count g \<and> int (length (g_colors g)) = 3 * g_count g \<and>
         int (length (g_scales g)) = g_count g"
proof -
  obtain st where a: "allocate engine \<lfloor>sz * 80\<rfloor> = Inr st"
    and g: "g = result \<lfloor>sz * 80\<rfloor>
              (foldl (ellipticalParticle col rnd sz color) st [0..<nat \<lfloor>sz * 80\<rfloor>])"
    using assms by (auto simp: createEllipticalGalaxy_def Let_def split: sum.splits)
  have "buffers_ok \<lfloor>sz * 80\<rfloor>
      (foldl (ellipticalParticle col rnd sz color) st [0..<nat \<lfloor>sz * 80\<rfloor>])"
    using allocate_ok [OF a] by (simp add: foldl_ok ellipticalParticle_ok)
  then show ?thesis
    unfolding g by (rule result_ok)
qed

lemma createIrregularGalaxy_lengths:
  assumes "createIrregularGalaxy engine col rnd sz color = Inr g"
  shows "int (length (g_positions g)) = 3 * g_count g \<and> int (length (g_colors g)) = 3 * g_count g \<and>
         int (length (g_scales g)) = g_count g"
proof -
  obtain st where a: "allocate engine \<lfloor>sz * 60\<rfloor> = Inr st"
    and g: "g = result \<lfloor>sz * 60\<rfloor>
              (foldl (irregularParticle col rnd sz color) st [0..<nat \<lfloor>sz * 60\<rfloor>])"
    using assms by (auto simp: createIrregularGalaxy_def Let_def split: sum.splits)
  have "buffers_ok \<lfloor>sz * 60\<rfloor>
      (foldl (irregularParticle col rnd sz color) st [0..<nat \<lfloor>sz * 60\<rfloor>])"
    using allocate_ok [OF a] by (simp add: foldl_ok irregularParticle_ok)
  then show ?thesis
    unfolding g by (rule result_ok)
qed

lemma generators_return:
  assumes "0 \<le> sz"
  shows "engine 0 (\<lfloor>sz * 100\<rfloor> * 3) \<and> engine 1 (\<lfloor>sz * 100\<rfloor> * 3) \<and> engine 2 \<lfloor>sz * 100\<rfloor> \<Longrightarrow>
           \<exists>g. createSpiralGalaxy engine col rnd sz color armCount = Inr g \<and>
                g_count g = \<lfloor>sz * 100\<rfloor>"
    and "engine 0 (\<lfloor>sz * 80\<rfloor> * 3) \<and> engine 1 (\<lfloor>sz * 80\<rfloor> * 3) \<and> engine 2 \<lfloor>sz * 80\<rfloor> \<Longrightarrow>
           \<exists>g. createEllipticalGalaxy engine col rnd sz color = Inr g \<and> g_count g = \<lfloor>sz * 80\<rfloor>"
    and "engine 0 (\<lfloor>sz * 60\<rfloor> * 3) \<and> engine 1 (\<lfloor>sz * 60\<rfloor> * 3) \<and> engine 2 \<lfloor>sz * 60\<rfloor> \<Longrightarrow>
           \<exists>g. createIrregularGalaxy engine col rnd sz color = Inr g \<and> g_count g = \<lfloor>sz * 60\<rfloor>"
proof -
  assume e: "engine 0 (\<lfloor>sz * 100\<rfloor> * 3) \<and> engine 1 (\<lfloor>sz * 100\<rfloor> * 3) \<and> engine 2 \<lfloor>sz * 100\<rfloor>"
  have "0 \<le> \<lfloor>sz * 100\<rfloor>"
    using assms by simp
  then obtain st where "allocate engine \<lfloor>sz * 100\<rfloor> = Inr st"
    using allocate_total [of "\<lfloor>sz * 100\<rfloor>" engine] e by blast
  then show "\<exists>g. createSpiralGalaxy engine col rnd sz color armCount = Inr g \<and>
      g_count g = \<lfloor>sz * 100\<rfloor>"
    by (simp add: createSpiralGalaxy_def Let_def result_def)
next
  assume e: "engine 0 (\<lfloor>sz * 80\<rfloor> * 3) \<and> engine 1 (\<lfloor>sz * 80\<rfloor> * 3) \<and> engine 2 \<lfloor>sz * 80\<rfloor>"
  have "0 \<le> \<lfloor>sz * 80\<rfloor>"
    using assms by simp
  then obtain st where "allocate engine \<lfloor>sz * 80\<rfloor> = Inr st"
    using allocate_total [of "\<lfloor>sz * 80\<rfloor>" engine] e by blast
  then show "\<exists>g. createEllipticalGalaxy engine col rnd sz color = Inr g \<and> g_count g = \<lfloor>sz * 80\<rfloor>"
    by (simp add: createEllipticalGalaxy_def Let_def result_def)
next
  assume e: "engine 0 (\<lfloor>sz * 60\<rfloor> * 3) \<and> engine 1 (\<lfloor>sz * 60\<rfloor> * 3) \<and> engine 2 \<lfloor>sz * 60\<rfloor>"
  have "0 \<le> \<lfloor>sz * 60\<rfloor>"
    using assms by simp
  then obtain st where "allocate engine \<lfloor>sz * 60\<rfloor> = Inr st"
    using allocate_total [of "\<lfloor>sz * 60\<rfloor>" engine] e by blast
  then show "\<exists>g. createIrregularGalaxy engine col rnd sz color = Inr g \<and> g_count g = \<lfloor>sz * 60\<rfloor>"
    by (simp add: createIrregularGalaxy_def Let_def result_def)
qed

lemma generators_throw:
  assumes "sz < 0"
  shows "createSpiralGalaxy engine col rnd sz color armCount = Inl RangeError"
    and "createEllipticalGalaxy engine col rnd sz color = Inl RangeError"
    and "createIrregularGalaxy engine col rnd sz color = Inl RangeError"
proof -
  have "\<lfloor>sz * 100\<rfloor> < 0" "\<lfloor>sz * 80\<rfloor> < 0" "\<lfloor>sz * 60\<rfloor> < 0"
    using assms by (simp_all add: floor_less_iff mult_less_0_iff)
  then show "createSpiralGalaxy engine col rnd sz color armCount = Inl RangeError"
    and "createEllipticalGalaxy engine col rnd sz color = Inl RangeError"
    and "createIrregularGalaxy engine col rnd sz color = Inl RangeError"
    by (simp_all add: createSpiralGalaxy_def createEllipticalGalaxy_def createIrregularGalaxy_def
        Let_def allocate_error)
qed

lemma generators_throw_too_long:
  "\<not> engine 0 (\<lfloor>sz * 100\<rfloor> * 3) \<Longrightarrow>
   createSpiralGalaxy engine col rnd sz color armCount = Inl RangeError"
  by (simp add: createSpiralGalaxy_def Let_def allocate_too_long)

text \<open>
  C9.  Whatever the size, the colour, the number of arms, the parsed colours, the random
  draws and the engine are, the arrays that the spiral, the elliptical or the irregular
  generator returns have the lengths \<open>3 \<cdot> count\<close>, \<open>3 \<cdot> count\<close> and \<open>count\<close>, for the \<open>count\<close>
  returned with them; and each generator does return for every size that is not
  negative and whose three arrays the engine makes (for a negative size, or an array
  the engine does not make, \<open>new Float32Array\<close> throws).
\<close>

theorem galaxy_arrays_match_count:
  "(createSpiralGalaxy engine col rnd sz color armCount = Inr g \<longrightarrow>
      int (length (g_positions g)) = 3 * g_count g \<and> int (length (g_colors g)) = 3 * g_count g \<and>
      int (length (g_scales g)) = g_count g) \<and>
   (createEllipticalGalaxy engine col rnd sz color = Inr g \<longrightarrow>
      int (length (g_positions g)) = 3 * g_count g \<and> int (length (g_colors g)) = 3 * g_count g \<and>
      int (length (g_scales g)) = g_count g) \<and>
   (createIrregularGalaxy engine col rnd sz color = Inr g \<longrightarrow>
      int (length (g_positions g)) = 3 * g_count g \<and> int (length (g_colors g)) = 3 * g_count g \<and>
      int (length (g_scales g)) = g_count g) \<and>
   (0 \<le> sz \<and> engine 0 (\<lfloor>sz * 100\<rfloor> * 3) \<and> engine 1 (\<lfloor>sz * 100\<rfloor> * 3) \<and> engine 2 \<lfloor>sz * 100\<rfloor> \<longrightarrow>
      (\<exists>g. createSpiralGalaxy engine col rnd sz color armCount = Inr g)) \<and>
   (0 \<le> sz \<and> engine 0 (\<lfloor>sz * 80\<rfloor> * 3) \<and> engine 1 (\<lfloor>sz * 80\<rfloor> * 3) \<and> engine 2 \<lfloor>sz * 80\<rfloor> \<longrightarrow>
      (\<exists>g. createEllipticalGalaxy engine col rnd sz color = Inr g)) \<and>
   (0 \<le> sz \<and> engine 0 (\<lfloor>sz * 60\<rfloor> * 3) \<and> engine 1 (\<lfloor>sz * 60\<rfloor> * 3) \<and> engine 2 \<lfloor>sz * 60\<rfloor> \<longrightarrow>
      (\<exists>g. createIrregularGalaxy engine col rnd sz color = Inr g))"
  using createSpiralGalaxy_lengths [of engine col rnd sz color armCount g]
    createEllipticalGalaxy_lengths [of engine col rnd sz color g]
    createIrregularGalaxy_lengths [of engine col rnd sz color g]
    generators_return(1) [of sz engine col rnd color armCount]
    generators_return(2) [of sz engine col rnd color]
    generators_return(3) [of sz engine col rnd color]
  by blast

theorem galaxy_arrays_match_count_witness:
  "(0::real) \<le> 1 / 50 \<and>
   engineLimit 0 (\<lfloor>1 / 50 * 100 :: real\<rfloor> * 3) \<and> engineLimit 1 (\<lfloor>1 / 50 * 80 :: real\<rfloor> * 3) \<and>
   engineLimit 2 \<lfloor>1 / 50 * 60 :: real\<rfloor> \<and>
   (\<exists>g. createSpiralGalaxy engineLimit allWhite halves (1 / 50) ''#4FC3F7'' 4 = Inr g \<and> g_count g = 2 \<and>
        length (g_positions g) = 6 \<and> length (g_colors g) = 6 \<and> length (g_scales g) = 2) \<and>
   (\<exists>g. createEllipticalGalaxy engineLimit allWhite halves (1 / 50) ''#4FC3F7'' = Inr g \<and> g_count g = 1 \<and>
        length (g_positions g) = 3 \<and> length (g_colors g) = 3 \<and> length (g_scales g) = 1) \<and>
   (\<exists>g. createIrregularGalaxy engineLimit allWhite halves (1 / 50) ''#4FC3F7'' = Inr g \<and> g_count g = 1 \<and>
        length (g_positions g) = 3 \<and> length (g_colors g) = 3 \<and> length (g_scales g) = 1)"
proof -
  have h: "(0::real) \<le> 1 / 50"
    by simp
  have e: "engineLimit k n" if "n \<le> 6" for k n
    using that by (simp add: engineLimit_def)
  have e1: "engineLimit 0 (\<lfloor>1 / 50 * 100 :: real\<rfloor> * 3) \<and> engineLimit 1 (\<lfloor>1 / 50 * 100 :: real\<rfloor> * 3) \<and>
      engineLimit 2 \<lfloor>1 / 50 * 100 :: real\<rfloor>"
    by (simp add: e)
  have e2: "engineLimit 0 (\<lfloor>1 / 50 * 80 :: real\<rfloor> * 3) \<and> engineLimit 1 (\<lfloor>1 / 50 * 80 :: real\<rfloor> * 3) \<and>
      engineLimit 2 \<lfloor>1 / 50 * 80 :: real\<rfloor>"
    by (simp add: e)
  have e3: "engineLimit 0 (\<lfloor>1 / 50 * 60 :: real\<rfloor> * 3) \<and> engineLimit 1 (\<lfloor>1 / 50 * 60 :: real\<rfloor> * 3) \<and>
      engineLimit 2 \<lfloor>1 / 50 * 60 :: real\<rfloor>"
    by (simp add: e)
  obtain g1 where g1: "createSpiralGalaxy engineLimit allWhite halves (1 / 50) ''#4FC3F7'' 4 = Inr g1"
    and c1: "g_count g1 = 2"
    using generators_return(1) [OF h e1, of allWhite halves "''#4FC3F7''" 4] by auto
  obtain g2 where g2: "createEllipticalGalaxy engineLimit allWhite halves (1 / 50) ''#4FC3F7'' = Inr g2"
    and c2: "g_count g2 = 1"
    using generators_return(2) [OF h e2, of allWhite halves "''#4FC3F7''"] by auto
  obtain g3 where g3: "createIrregularGalaxy engineLimit allWhite halves (1 / 50) ''#4FC3F7'' = Inr g3"
    and c3: "g_count g3 = 1"
    using generators_return(3) [OF h e3, of allWhite halves "''#4FC3F7''"] by auto
  have l1: "length (g_positions g1) = 6 \<and> length (g_colors g1) = 6 \<and> length (g_scales g1) = 2"
    using galaxy_arrays_match_count [of engineLimit allWhite halves "1 / 50" "''#4FC3F7''" 4 g1] g1 c1
    by simp
  have l2: "length (g_positions g2) = 3 \<and> length (g_colors g2) = 3 \<and> length (g_scales g2) = 1"
    using galaxy_arrays_match_count [of engineLimit allWhite halves "1 / 50" "''#4FC3F7''" 4 g2] g2 c2
    by simp
  have l3: "length (g_positions g3) = 3 \<and> length (g_colors g3) = 3 \<and> length (g_scales g3) = 1"
    using galaxy_arrays_match_count [of engineLimit allWhite halves "1 / 50" "''#4FC3F7''" 4 g3] g3 c3
    by simp
  show ?thesis
    using h e1 e2 e3 g1 c1 l1 g2 c2 l2 g3 c3 l3 by blast
qed


end
